theory Spec2Isabelle
  imports Main
begin

section \<open>Python values, dictionaries and errors\<close>

text \<open>
  The configuration dictionaries of \<^verbatim>\<open>customwrap.py\<close> hold heterogeneous values, and the GPU
  sidecar answers with a JSON document. Both are values of \<open>pyval\<close>. A dictionary is an
  association list with pairwise different keys, in insertion order, as Python keeps it.
  JSON numbers are integers here; the code never computes with them.
\<close>

datatype pyval =
    PNone
  | PBool bool
  | PInt int
  | PStr string
  | PList "pyval list"
  | PDict "(string \<times> pyval) list"

type_synonym pydict = "(string \<times> pyval) list"

text \<open>\<^verbatim>\<open>d[k] = v\<close>: an existing key keeps its position, a new key goes to the end.\<close>

fun dict_set :: "'k \<Rightarrow> 'v \<Rightarrow> ('k \<times> 'v) list \<Rightarrow> ('k \<times> 'v) list" where
  "dict_set k v [] = [(k, v)]"
| "dict_set k v ((k', v') # d) =
     (if k' = k then (k, v) # d else (k', v') # dict_set k v d)"

text \<open>\<^verbatim>\<open>d.update(e)\<close>: the items of \<open>e\<close> are stored one after the other.\<close>

fun dict_update :: "('k \<times> 'v) list \<Rightarrow> ('k \<times> 'v) list \<Rightarrow> ('k \<times> 'v) list" where
  "dict_update d [] = d"
| "dict_update d ((k, v) # e) = dict_update (dict_set k v d) e"

text \<open>
  Every exception the code can raise is a value. \<open>DockerNotInstalled\<close> is the
  \<^verbatim>\<open>Exception("The docker package is not installed ...")\<close> of \<^verbatim>\<open>_jupyterhub_docker_tags\<close>.
  \<open>OSError\<close> stands for an \<^verbatim>\<open>OSError\<close> that is not a \<^verbatim>\<open>URLError\<close>.
  \<open>OutsideFragment\<close> is not a Python exception: it marks a format string that uses a
  feature of \<^verbatim>\<open>str.format\<close> this development does not model (see \<open>format_scan\<close>).
  A call that raises is \<open>Inl\<close> of the error, a call that returns is \<open>Inr\<close> of the value.
\<close>

datatype error =
    DockerNotInstalled
  | TypeError
  | IndexError
  | KeyError
  | AttributeError
  | ValueError
  | TraitError
  | OSError
  | OutsideFragment

text \<open>\<^verbatim>\<open>obj[key]\<close> with a string key, as \<^verbatim>\<open>args["Volumes"]\<close>: only a dictionary answers.\<close>

fun py_getitem :: "pyval \<Rightarrow> string \<Rightarrow> error + pyval" where
  "py_getitem (PDict kvs) k = (case map_of kvs k of None \<Rightarrow> Inl KeyError | Some v \<Rightarrow> Inr v)"
| "py_getitem PNone k = Inl TypeError"
| "py_getitem (PBool b) k = Inl TypeError"
| "py_getitem (PInt i) k = Inl TypeError"
| "py_getitem (PStr s) k = Inl TypeError"
| "py_getitem (PList xs) k = Inl TypeError"

text \<open>\<^verbatim>\<open>for x in obj\<close>: a list gives its elements, a string its characters, a dictionary its keys.\<close>

fun py_iter :: "pyval \<Rightarrow> error + pyval list" where
  "py_iter (PList xs) = Inr xs"
| "py_iter (PStr s) = Inr (map (\<lambda>c. PStr [c]) s)"
| "py_iter (PDict kvs) = Inr (map (\<lambda>kv. PStr (fst kv)) kvs)"
| "py_iter PNone = Inl TypeError"
| "py_iter (PBool b) = Inl TypeError"
| "py_iter (PInt i) = Inl TypeError"

text \<open>\<^verbatim>\<open>s.split(c)\<close> for a one-character separator: never empty, one more piece than separators.\<close>

fun split_on :: "char \<Rightarrow> string \<Rightarrow> string list" where
  "split_on c [] = [[]]"
| "split_on c (x # xs) =
     (if x = c then [] # split_on c xs
      else (case split_on c xs of [] \<Rightarrow> [[x]] | p # ps \<Rightarrow> (x # p) # ps))"

text \<open>\<^verbatim>\<open>vol.split(":")[i]\<close>: only a string has \<^verbatim>\<open>split\<close>; a missing piece is an IndexError.\<close>

fun split_item :: "pyval \<Rightarrow> nat \<Rightarrow> error + string" where
  "split_item (PStr s) i =
     (let parts = split_on (CHR '':'') s
      in if i < length parts then Inr (parts ! i) else Inl IndexError)"
| "split_item PNone i = Inl AttributeError"
| "split_item (PBool b) i = Inl AttributeError"
| "split_item (PInt n) i = Inl AttributeError"
| "split_item (PList xs) i = Inl AttributeError"
| "split_item (PDict kvs) i = Inl AttributeError"

section \<open>The outside world and the spawner object\<close>

text \<open>
  What one call sees of its environment; within the call it does not change, so every probe
  of the call has the same outcome. \<open>docker\<close> is \<open>None\<close> when \<^verbatim>\<open>import docker\<close> failed
  (the name is unbound), and otherwise the tag lists of the images the client reports.
  \<open>importable\<close> lists the import strings that resolve to a spawner class, each with the
  qualified name of that class; any other import string cannot be imported.
  \<open>sidecar\<close> is the outcome of the GET to \<^verbatim>\<open>http://localhost:3476/v1.0/docker/cli/json\<close>:
  \<open>URLError\<close> when \<^verbatim>\<open>urlopen\<close> raises it, \<open>Dropped\<close> when \<^verbatim>\<open>urlopen\<close> or \<^verbatim>\<open>read\<close> raises
  another \<^verbatim>\<open>OSError\<close> (the connection is closed or reset, or times out, after the request
  was sent), \<open>BadBody\<close> when the body cannot be decoded or parsed (a \<^verbatim>\<open>ValueError\<close>), and
  \<open>Body args\<close> when \<^verbatim>\<open>json.loads\<close> returns \<open>args\<close>.
\<close>

datatype probe = URLError | Dropped | BadBody | Body pyval

record world =
  docker :: "string list list option"
  importable :: "(string \<times> string) list"
  sidecar :: probe

text \<open>
  A spawner class is given as a class object or as an import string
  (\<^verbatim>\<open>"dockerspawner.SystemUserSpawner"\<close>).
\<close>

datatype pytype = PyClass string | ImportName string

text \<open>
  The option dictionary of a profile is a Python object, and \<^verbatim>\<open>select_profile\<close> stores a
  reference to it and then writes through that reference. The dictionaries of the configured
  profiles therefore live in a store, addressed by a number; \<open>Shared r\<close> is a reference to the
  object at address \<open>r\<close>. \<open>Own d\<close> is a dictionary that nothing else refers to: the dictionary
  \<^verbatim>\<open>_docker_profile\<close> builds afresh at every read of the registry.
\<close>

datatype dictref = Shared nat | Own pydict

type_synonym static_profile = "string \<times> string \<times> pytype \<times> nat"
type_synonym profile = "string \<times> string \<times> pytype \<times> dictref"
type_synonym image = "string \<times> string"

record spawner =
  groups :: "string list"
  default_profiles :: "static_profile list"
  child_profile :: string
  first_template :: string
  form_template :: string
  input_image_template :: string
  input_template :: string
  profile_image :: string
  group_images :: "(string \<times> image list) list"
  default_profile_image :: "image list"
  docker_spawner_args :: pydict
  user_name :: string
  child_class :: pytype
  child_config :: dictref
  store :: "nat \<Rightarrow> pydict"

text \<open>The dictionary a reference stands for.\<close>

fun deref :: "spawner \<Rightarrow> dictref \<Rightarrow> pydict" where
  "deref s (Shared r) = store s r"
| "deref s (Own d) = d"

definition p_display :: "'a \<times> 'b \<times> 'c \<times> 'd \<Rightarrow> 'a" where
  "p_display p = fst p"

definition p_key :: "'a \<times> 'b \<times> 'c \<times> 'd \<Rightarrow> 'b" where
  "p_key p = fst (snd p)"

definition p_type :: "'a \<times> 'b \<times> 'c \<times> 'd \<Rightarrow> 'c" where
  "p_type p = fst (snd (snd p))"

definition p_options :: "'a \<times> 'b \<times> 'c \<times> 'd \<Rightarrow> 'd" where
  "p_options p = snd (snd (snd p))"

section \<open>Image discovery and the profile registry\<close>

text \<open>
  \<^verbatim>\<open>jupyterhub_docker_tag_re = re.compile("^.*jupyterhub$")\<close>, used with \<^verbatim>\<open>match\<close>: the dot does
  not cross a newline, and the dollar also matches before one newline at the very end.
\<close>

definition ends_with :: "string \<Rightarrow> string \<Rightarrow> bool" where
  "ends_with suf s = (length suf \<le> length s \<and> drop (length s - length suf) s = suf)"

definition include_jh_tags :: "string \<Rightarrow> bool" where
  "include_jh_tags tag =
     (let t = (if tag \<noteq> [] \<and> last tag = CHR 0x0A then butlast tag else tag)
      in ends_with ''jupyterhub'' t \<and> CHR 0x0A \<notin> set t)"

definition jupyterhub_docker_tags :: "world \<Rightarrow> error + string list" where
  "jupyterhub_docker_tags w =
     (case docker w of
        None \<Rightarrow> Inl DockerNotInstalled
      | Some imgs \<Rightarrow> Inr (filter include_jh_tags (concat imgs)))"

text \<open>The dictionary comprehension over \<^verbatim>\<open>args["Volumes"]\<close>, key before value, item by item.\<close>

fun volumes_dict :: "pyval list \<Rightarrow> pydict \<Rightarrow> error + pydict" where
  "volumes_dict [] acc = Inr acc"
| "volumes_dict (vol # vols) acc =
     (case split_item vol 0 of
        Inl e \<Rightarrow> Inl e
      | Inr k \<Rightarrow>
          (case split_item vol 1 of
             Inl e \<Rightarrow> Inl e
           | Inr v \<Rightarrow> volumes_dict vols (dict_set k (PStr v) acc)))"

definition nvidia_args :: "world \<Rightarrow> error + pydict" where
  "nvidia_args w =
     (case sidecar w of
        URLError \<Rightarrow> Inr []
      | Dropped \<Rightarrow> Inl OSError
      | BadBody \<Rightarrow> Inl ValueError
      | Body args \<Rightarrow>
          (case py_getitem args ''Volumes'' of
             Inl e \<Rightarrow> Inl e
           | Inr vols \<Rightarrow>
          (case py_iter vols of
             Inl e \<Rightarrow> Inl e
           | Inr vs \<Rightarrow>
          (case volumes_dict vs [] of
             Inl e \<Rightarrow> Inl e
           | Inr rov \<Rightarrow>
          (case py_getitem args ''VolumeDriver'' of
             Inl e \<Rightarrow> Inl e
           | Inr driver \<Rightarrow>
          (case py_getitem args ''Devices'' of
             Inl e \<Rightarrow> Inl e
           | Inr devices \<Rightarrow>
               Inr [(''read_only_volumes'', PDict rov),
                    (''extra_create_kwargs'', PDict [(''volume_driver'', driver)]),
                    (''extra_host_config'', PDict [(''devices'', devices)])]))))))"

definition docker_profile :: "spawner \<Rightarrow> pydict \<Rightarrow> string \<Rightarrow> profile" where
  "docker_profile s nvargs img =
     (let spawner_args =
            dict_update
              (dict_update
                 [(''container_image'', PStr img), (''network_name'', PStr (user_name s))]
                 (docker_spawner_args s))
              nvargs;
          nvidia_enabled = (if length nvargs > 0 then ''w/GPU'' else ''no GPU'')
      in (''Docker: ('' @ nvidia_enabled @ ''): '' @ img,
          ''docker-'' @ img,
          ImportName ''dockerspawner.SystemUserSpawner'',
          Own spawner_args))"

text \<open>The list comprehension of \<^verbatim>\<open>_docker_profiles\<close>: one probe and one profile per tag.\<close>

fun docker_profiles_of :: "world \<Rightarrow> spawner \<Rightarrow> string list \<Rightarrow> error + profile list" where
  "docker_profiles_of w s [] = Inr []"
| "docker_profiles_of w s (tag # tags) =
     (case nvidia_args w of
        Inl e \<Rightarrow> Inl e
      | Inr nvargs \<Rightarrow>
          (case docker_profiles_of w s tags of
             Inl e \<Rightarrow> Inl e
           | Inr ps \<Rightarrow> Inr (docker_profile s nvargs tag # ps)))"

definition docker_profiles :: "world \<Rightarrow> spawner \<Rightarrow> error + profile list" where
  "docker_profiles w s =
     (case jupyterhub_docker_tags w of
        Inl e \<Rightarrow> Inl e
      | Inr tags \<Rightarrow> docker_profiles_of w s tags)"

definition static_entry :: "static_profile \<Rightarrow> profile" where
  "static_entry p = (p_display p, p_key p, p_type p, Shared (p_options p))"

text \<open>
  Reading \<^verbatim>\<open>self.default_profiles\<close>. The trait is a
  \<^verbatim>\<open>List(Tuple(Unicode(), Unicode(), Type(Spawner), Dict()))\<close>, and the field of the record
  holds the list as it was configured. The validation of the \<^verbatim>\<open>Type(Spawner)\<close> slot leaves a
  class object as it is (it is taken to be a spawner class) and imports an import string: the
  value read holds the class, and a string that cannot be imported is a TraitError. The
  tuples are rebuilt; the dictionaries are the same objects.
\<close>

fun resolve_type :: "world \<Rightarrow> pytype \<Rightarrow> error + pytype" where
  "resolve_type w (PyClass c) = Inr (PyClass c)"
| "resolve_type w (ImportName n) =
     (case map_of (importable w) n of None \<Rightarrow> Inl TraitError | Some c \<Rightarrow> Inr (PyClass c))"

fun validate_profiles :: "world \<Rightarrow> static_profile list \<Rightarrow> error + static_profile list" where
  "validate_profiles w [] = Inr []"
| "validate_profiles w (p # ps) =
     (case resolve_type w (p_type p) of
        Inl e \<Rightarrow> Inl e
      | Inr t \<Rightarrow>
          (case validate_profiles w ps of
             Inl e \<Rightarrow> Inl e
           | Inr qs \<Rightarrow> Inr ((p_display p, p_key p, t, p_options p) # qs)))"

text \<open>
  The property \<^verbatim>\<open>profiles\<close>: \<^verbatim>\<open>self.default_profiles + self._docker_profiles()\<close>, the left
  operand first.
\<close>

definition profiles :: "world \<Rightarrow> spawner \<Rightarrow> error + profile list" where
  "profiles w s =
     (case validate_profiles w (default_profiles s) of
        Inl e \<Rightarrow> Inl e
      | Inr sps \<Rightarrow>
          (case docker_profiles w s of
             Inl e \<Rightarrow> Inl e
           | Inr dps \<Rightarrow> Inr (map static_entry sps @ dps)))"

text \<open>The method \<^verbatim>\<open>images(group)\<close>.\<close>

definition images_of :: "spawner \<Rightarrow> string \<Rightarrow> image list" where
  "images_of s grp =
     (if grp \<noteq> []
      then (case map_of (group_images s) grp of None \<Rightarrow> [] | Some imgs \<Rightarrow> imgs)
      else default_profile_image s)"

section \<open>Selection, persistence and restore\<close>

text \<open>\<^verbatim>\<open>self.child_config[k] = v\<close>: the write goes to the object the field refers to.\<close>

definition child_config_setitem :: "string \<Rightarrow> pyval \<Rightarrow> spawner \<Rightarrow> spawner" where
  "child_config_setitem k v s =
     (case child_config s of
        Shared r \<Rightarrow> s\<lparr>store := (store s)(r := dict_set k v (store s r))\<rparr>
      | Own d \<Rightarrow> s\<lparr>child_config := Own (dict_set k v d)\<rparr>)"

text \<open>The body of the loop of \<^verbatim>\<open>select_profile\<close> for a matching entry.\<close>

definition install :: "profile \<Rightarrow> string \<Rightarrow> spawner \<Rightarrow> spawner" where
  "install p img s =
     child_config_setitem ''image'' (PStr img)
       (s\<lparr>child_class := p_type p, child_config := p_options p\<rparr>)"

text \<open>The loop of \<^verbatim>\<open>select_profile\<close>, which ends at the first match.\<close>

fun select_loop :: "profile list \<Rightarrow> string \<Rightarrow> string \<Rightarrow> spawner \<Rightarrow> spawner" where
  "select_loop [] prof img s = s"
| "select_loop (p # ps) prof img s =
     (if p_key p = prof then install p img s else select_loop ps prof img s)"

text \<open>
  A method that changes the object returns the pair of its outcome and the object afterwards:
  what was assigned before an exception stays assigned. \<^verbatim>\<open>child_class\<close> and \<^verbatim>\<open>child_config\<close>
  are declared by the parent class \<^verbatim>\<open>WrapSpawner\<close>, which is not part of the sources at hand,
  and are assigned here as the attributes they are. The call of \<^verbatim>\<open>inspect\<close> only prints.
\<close>

definition select_profile :: "world \<Rightarrow> string \<Rightarrow> string \<Rightarrow> spawner \<Rightarrow> (error + unit) \<times> spawner" where
  "select_profile w prof img s =
     (case profiles w s of
        Inl e \<Rightarrow> (Inl e, s)
      | Inr ps \<Rightarrow> (Inr (), select_loop ps prof img s))"

text \<open>
  The \<^verbatim>\<open>try\<close> statement of \<^verbatim>\<open>load_child_class\<close>. \<^verbatim>\<open>child_profile\<close> and \<^verbatim>\<open>profile_image\<close> are
  \<^verbatim>\<open>Unicode()\<close> traits: assigning a value that is not a string raises a TraitError, which
  the \<^verbatim>\<open>except KeyError\<close> does not catch.
\<close>

definition load_fields :: "pydict \<Rightarrow> spawner \<Rightarrow> (error + unit) \<times> spawner" where
  "load_fields state s =
     (let on_KeyError = (\<lambda>t. (Inr (), t\<lparr>child_profile := [], profile_image := []\<rparr>))
      in case map_of state ''profile'' of
           None \<Rightarrow> on_KeyError s
         | Some (PStr prof) \<Rightarrow>
             (let s1 = s\<lparr>child_profile := prof\<rparr>
              in case map_of state ''dockerImage'' of
                   None \<Rightarrow> on_KeyError s1
                 | Some (PStr img) \<Rightarrow> (Inr (), s1\<lparr>profile_image := img\<rparr>)
                 | Some _ \<Rightarrow> (Inl TraitError, s1))
         | Some _ \<Rightarrow> (Inl TraitError, s))"

text \<open>\<^verbatim>\<open>load_child_class\<close>: the \<^verbatim>\<open>try\<close> statement, then \<^verbatim>\<open>select_profile\<close> on the two fields.\<close>

definition load_child_class :: "world \<Rightarrow> pydict \<Rightarrow> spawner \<Rightarrow> (error + unit) \<times> spawner" where
  "load_child_class w state s =
     (case load_fields state s of
        (Inl e, s') \<Rightarrow> (Inl e, s')
      | (Inr u, s') \<Rightarrow> select_profile w (child_profile s') (profile_image s') s')"

text \<open>
  \<^verbatim>\<open>get_state\<close>: \<open>base\<close> is what \<^verbatim>\<open>super().get_state()\<close> returned; the class \<^verbatim>\<open>WrapSpawner\<close>
  that computes it is not part of the sources at hand.
\<close>

definition get_state :: "pydict \<Rightarrow> spawner \<Rightarrow> pydict" where
  "get_state base s =
     dict_set ''dockerImage'' (PStr (profile_image s))
       (dict_set ''profile'' (PStr (child_profile s)) base)"

section \<open>Form submission\<close>

text \<open>
  \<^verbatim>\<open>images\<close> is defined with \<^verbatim>\<open>def images(self, group: str = "")\<close> and without
  \<^verbatim>\<open>@property\<close> (\<^verbatim>\<open>profiles\<close> has it), so the attribute \<^verbatim>\<open>self.images\<close> is a bound method,
  and \<^verbatim>\<open>self.images[0]\<close> subscripts that method object.
\<close>

datatype pyattr = BoundMethod | ImageList "image list"

definition images_attr :: "spawner \<Rightarrow> pyattr" where
  "images_attr s = BoundMethod"

fun attr_getitem :: "pyattr \<Rightarrow> nat \<Rightarrow> error + image" where
  "attr_getitem BoundMethod i = Inl TypeError"
| "attr_getitem (ImageList xs) i = (if i < length xs then Inr (xs ! i) else Inl IndexError)"

text \<open>
  \<^verbatim>\<open>options_from_form\<close>. Python evaluates the default argument of \<^verbatim>\<open>formdata.get\<close> before
  the call, whether or not the key is present; the form data maps a field name to the list
  of its values.
\<close>

definition options_from_form ::
  "world \<Rightarrow> spawner \<Rightarrow> (string \<rightharpoonup> string list) \<Rightarrow> error + pydict" where
  "options_from_form w s formdata =
     (case profiles w s of
        Inl e \<Rightarrow> Inl e
      | Inr ps \<Rightarrow>
     (case ps of
        [] \<Rightarrow> Inl IndexError
      | p # rest \<Rightarrow>
     (case (case formdata ''profile'' of None \<Rightarrow> [p_key p] | Some vs \<Rightarrow> vs) of
        [] \<Rightarrow> Inl IndexError
      | prof # profs \<Rightarrow>
     (case attr_getitem (images_attr s) 0 of
        Inl e \<Rightarrow> Inl e
      | Inr im \<Rightarrow>
     (case (case formdata ''dockerImage'' of None \<Rightarrow> [snd im] | Some vs \<Rightarrow> vs) of
        [] \<Rightarrow> Inl IndexError
      | di # dis \<Rightarrow>
          Inr [(''profile'', PStr prof), (''dockerImage'', PStr di)])))))"

section \<open>Rendering the form\<close>

abbreviation dq :: char where
  "dq \<equiv> CHR 0x22"

abbreviation nl :: char where
  "nl \<equiv> CHR 0x0A"

abbreviation sq :: char where
  "sq \<equiv> CHR 0x27"

text \<open>The values a template is formatted with: strings, and the class of a profile.\<close>

datatype targ = TStr string | TType pytype

fun targ_str :: "targ \<Rightarrow> string" where
  "targ_str (TStr s) = s"
| "targ_str (TType (PyClass n)) = ''<class '' @ [sq] @ n @ [sq] @ ''>''"
| "targ_str (TType (ImportName n)) = n"

text \<open>
  \<^verbatim>\<open>template.format(**kw)\<close>, read from left to right. Modelled are literal text, the escapes
  \<^verbatim>\<open>{{\<close> and \<^verbatim>\<open>}}\<close>, and replacement fields \<^verbatim>\<open>{name}\<close>: a name of digits only (or no
  name) asks for a positional argument, and there is none; any other name is looked up in
  \<open>kw\<close>. A field with a conversion, a format specification, an attribute or an index
  (\<^verbatim>\<open>!\<close>, \<^verbatim>\<open>:\<close>, \<^verbatim>\<open>.\<close>, \<^verbatim>\<open>[\<close>) is outside this fragment.
\<close>

datatype fmt_mode = Text | Open | Field string | Close

datatype field_char = EndField | BadBrace | Unsupported | NameChar

definition classify :: "char \<Rightarrow> field_char" where
  "classify c =
     (if c = CHR ''}'' then EndField
      else if c = CHR ''{'' then BadBrace
      else if c = CHR ''!'' \<or> c = CHR '':'' \<or> c = CHR ''.'' \<or> c = CHR ''['' then Unsupported
      else NameChar)"

definition is_digit :: "char \<Rightarrow> bool" where
  "is_digit c = (c \<in> set ''0123456789'')"

definition lookup_field :: "string \<Rightarrow> (string \<times> targ) list \<Rightarrow> error + string" where
  "lookup_field n kw =
     (if list_all is_digit n then Inl IndexError
      else (case map_of kw n of None \<Rightarrow> Inl KeyError | Some v \<Rightarrow> Inr (targ_str v)))"

definition emit :: "string \<Rightarrow> error + string \<Rightarrow> error + string" where
  "emit t r = (case r of Inl e \<Rightarrow> Inl e | Inr u \<Rightarrow> Inr (t @ u))"

fun format_scan :: "fmt_mode \<Rightarrow> string \<Rightarrow> (string \<times> targ) list \<Rightarrow> error + string" where
  "format_scan Text [] kw = Inr []"
| "format_scan Open [] kw = Inl ValueError"
| "format_scan Close [] kw = Inl ValueError"
| "format_scan (Field n) [] kw = Inl ValueError"
| "format_scan Text (c # cs) kw =
     (if c = CHR ''{'' then format_scan Open cs kw
      else if c = CHR ''}'' then format_scan Close cs kw
      else emit [c] (format_scan Text cs kw))"
| "format_scan Close (c # cs) kw =
     (if c = CHR ''}'' then emit [c] (format_scan Text cs kw) else Inl ValueError)"
| "format_scan Open (c # cs) kw =
     (if c = CHR ''{'' then emit [c] (format_scan Text cs kw)
      else (case classify c of
              EndField \<Rightarrow>
                (case lookup_field [] kw of
                   Inl e \<Rightarrow> Inl e
                 | Inr v \<Rightarrow> emit v (format_scan Text cs kw))
            | BadBrace \<Rightarrow> Inl ValueError
            | Unsupported \<Rightarrow> Inl OutsideFragment
            | NameChar \<Rightarrow> format_scan (Field [c]) cs kw))"
| "format_scan (Field n) (c # cs) kw =
     (case classify c of
        EndField \<Rightarrow>
          (case lookup_field n kw of
             Inl e \<Rightarrow> Inl e
           | Inr v \<Rightarrow> emit v (format_scan Text cs kw))
      | BadBrace \<Rightarrow> Inl ValueError
      | Unsupported \<Rightarrow> Inl OutsideFragment
      | NameChar \<Rightarrow> format_scan (Field (n @ [c])) cs kw)"

definition format :: "string \<Rightarrow> (string \<times> targ) list \<Rightarrow> error + string" where
  "format template kw = format_scan Text template kw"

text \<open>\<^verbatim>\<open>"".join([template.format(**tk) for tk in records])\<close>.\<close>

fun format_all :: "string \<Rightarrow> (string \<times> targ) list list \<Rightarrow> error + string" where
  "format_all template [] = Inr []"
| "format_all template (tk # tks) =
     (case format template tk of
        Inl e \<Rightarrow> Inl e
      | Inr t \<Rightarrow> emit t (format_all template tks))"

definition profile_record :: "profile \<Rightarrow> (string \<times> targ) list" where
  "profile_record p =
     [(''display'', TStr (p_display p)), (''key'', TStr (p_key p)),
      (''type'', TType (p_type p)), (''first'', TStr [])]"

definition image_record :: "image \<Rightarrow> (string \<times> targ) list" where
  "image_record p = [(''display'', TStr (fst p)), (''key'', TStr (snd p)), (''first'', TStr [])]"

text \<open>\<^verbatim>\<open>temp_images\<close>: the images of the user's groups, group after group.\<close>

definition group_image_list :: "spawner \<Rightarrow> image list" where
  "group_image_list s = concat (map (images_of s) (groups s))"

text \<open>The property \<^verbatim>\<open>options_form\<close>. The calls of \<^verbatim>\<open>inspect\<close> only print.\<close>

definition options_form :: "world \<Rightarrow> spawner \<Rightarrow> error + string" where
  "options_form w s =
     (case profiles w s of
        Inl e \<Rightarrow> Inl e
      | Inr ps \<Rightarrow>
     (case map profile_record ps of
        [] \<Rightarrow> Inl IndexError
      | tk # tks \<Rightarrow>
     (let temp_keys = dict_set ''first'' (TStr (first_template s)) tk # tks;
          temp_images =
            (case map image_record (group_image_list s) of
               [] \<Rightarrow> []
             | ti # tis \<Rightarrow> dict_set ''first'' (TStr (first_template s)) ti # tis)
      in case format_all (input_template s) temp_keys of
           Inl e \<Rightarrow> Inl e
         | Inr text \<Rightarrow>
        (case format_all (input_image_template s) temp_images of
           Inl e \<Rightarrow> Inl e
         | Inr textImages \<Rightarrow>
             format (form_template s)
               [(''input_template'', TStr text),
                (''input_image_template'', TStr textImages)]))))"

section \<open>The configuration the class ships with\<close>

definition default_form_template :: string where
  "default_form_template =
     ''<label for='' @ [dq] @ ''profile'' @ [dq] @ ''>Select a job profile:</label>'' @ [nl] @
     ''        <select class='' @ [dq] @ ''form-control'' @ [dq] @ '' name='' @ [dq] @ ''profile'' @ [dq] @ '' required autofocus>'' @ [nl] @
     ''        {input_template}'' @ [nl] @
     ''        </select>'' @ [nl] @
     ''        '' @ [nl] @
     ''        <label for='' @ [dq] @ ''profile'' @ [dq] @ ''>Select docker image:</label>'' @ [nl] @
     ''        <select class='' @ [dq] @ ''form-control'' @ [dq] @ '' name='' @ [dq] @ ''dockerImage'' @ [dq] @ '' required autofocus>'' @ [nl] @
     ''        {input_image_template}'' @ [nl] @
     ''        </select>'' @ [nl] @
     ''        ''"

text \<open>The default of both \<^verbatim>\<open>input_template\<close> and \<^verbatim>\<open>input_image_template\<close>.\<close>

definition default_input_template :: string where
  "default_input_template =
     [nl] @
     ''        <option value='' @ [dq] @ ''{key}'' @ [dq] @ '' {first}>{display}</option>''"

text \<open>
  An object with the defaults of the class, for the user \<open>''alice''\<close> without groups. The
  dictionary of the one configured profile is at address 0 of the store. \<^verbatim>\<open>child_class\<close> and
  \<^verbatim>\<open>child_config\<close> are inherited from \<^verbatim>\<open>WrapSpawner\<close> and start as a local process spawner
  with an empty configuration.
\<close>

definition default_spawner :: spawner where
  "default_spawner =
     \<lparr>groups = [],
      default_profiles =
        [(''Run Docker Image'', ''singleuser'', ImportName ''dockerspawner.SystemUserSpawner'', 0)],
      child_profile = [],
      first_template = ''selected'',
      form_template = default_form_template,
      input_image_template = default_input_template,
      input_template = default_input_template,
      profile_image = [],
      group_images =
        [(''group_a'', [(''base image group_a'', ''jupyterhub/singleuser'')]),
         (''group_b'', [(''base image group_b'', ''jupyterhub/singleuser'')])],
      default_profile_image = [(''base'', ''jupyterhub/singleuser'')],
      docker_spawner_args = [],
      user_name = ''alice'',
      child_class = PyClass ''jupyterhub.spawner.LocalProcessSpawner'',
      child_config = Own [],
      store = (\<lambda>r. [])(0 := [(''image'', PStr ''sbrambla'')])\<rparr>"

text \<open>
  What the default templates render to: one \<^verbatim>\<open><option>\<close> element for a key, a marker and a
  display name, and the form around the two lists of elements.
\<close>

definition option_html :: "string \<Rightarrow> string \<Rightarrow> string \<Rightarrow> string" where
  "option_html k f d =
     [nl] @
     ''        <option value='' @ [dq] @ k @ [dq] @ '' '' @ f @ ''>'' @ d @ ''</option>''"

definition form_html :: "string \<Rightarrow> string \<Rightarrow> string" where
  "form_html text textImages =
     ''<label for='' @ [dq] @ ''profile'' @ [dq] @ ''>Select a job profile:</label>'' @ [nl] @
     ''        <select class='' @ [dq] @ ''form-control'' @ [dq] @ '' name='' @ [dq] @ ''profile'' @ [dq] @ '' required autofocus>'' @ [nl] @
     ''        '' @ text @ [nl] @
     ''        </select>'' @ [nl] @
     ''        '' @ [nl] @
     ''        <label for='' @ [dq] @ ''profile'' @ [dq] @ ''>Select docker image:</label>'' @ [nl] @
     ''        <select class='' @ [dq] @ ''form-control'' @ [dq] @ '' name='' @ [dq] @ ''dockerImage'' @ [dq] @ '' required autofocus>'' @ [nl] @
     ''        '' @ textImages @ [nl] @
     ''        </select>'' @ [nl] @
     ''        ''"

text \<open>
  The elements of one group: the first carries the marker, every other carries the empty
  string in its place.
\<close>

fun option_elements :: "string \<Rightarrow> (string \<times> string) list \<Rightarrow> string list" where
  "option_elements marker [] = []"
| "option_elements marker ((d, k) # rest) =
     option_html k marker d # map (\<lambda>(d', k'). option_html k' [] d') rest"

text \<open>The entry the loop of \<^verbatim>\<open>select_profile\<close> stops at: the earliest one with the key.\<close>

fun first_match :: "profile list \<Rightarrow> string \<Rightarrow> profile option" where
  "first_match [] prof = None"
| "first_match (p # ps) prof = (if p_key p = prof then Some p else first_match ps prof)"

text \<open>What can be imported where the package \<^verbatim>\<open>dockerspawner\<close> is installed.\<close>

definition dockerspawner_imports :: "(string \<times> string) list" where
  "dockerspawner_imports =
     [(''dockerspawner.SystemUserSpawner'',
       ''dockerspawner.systemuserspawner.SystemUserSpawner'')]"

text \<open>
  A world for the examples: the docker client reports one image with two tags, of which the
  pattern keeps the first, and nothing listens on the sidecar's port.
\<close>

definition example_world :: world where
  "example_world =
     \<lparr>docker = Some [[''lab/jupyterhub'', ''lab:latest'']],
      importable = dockerspawner_imports,
      sidecar = URLError\<rparr>"

text \<open>A world in which the docker client reports no image at all.\<close>

definition no_images_world :: world where
  "no_images_world = \<lparr>docker = Some [], importable = dockerspawner_imports, sidecar = URLError\<rparr>"

text \<open>
  The registry of the specification's example: two configured profiles, the second with the
  options \<^verbatim>\<open>{"container_image": "img1"}\<close>, behind addresses 0 and 1.
\<close>

definition spec_example_spawner :: spawner where
  "spec_example_spawner =
     default_spawner
       \<lparr>default_profiles :=
          [(''Local'', ''local'', PyClass ''LocalBackend'', 0),
           (''GPU box'', ''docker-img1'', PyClass ''ContainerBackend'', 1)],
        store := (\<lambda>r. [])(1 := [(''container_image'', PStr ''img1'')])\<rparr>"

text \<open>A registry in which two profiles carry the key \<open>''twice''\<close>.\<close>

definition duplicate_key_spawner :: spawner where
  "duplicate_key_spawner =
     default_spawner
       \<lparr>default_profiles :=
          [(''Small'', ''local'', PyClass ''LocalBackend'', 0),
           (''First'', ''twice'', PyClass ''FirstBackend'', 1),
           (''Second'', ''twice'', PyClass ''SecondBackend'', 2)],
        store := (\<lambda>r. [])(1 := [(''cpu'', PInt 1)], 2 := [(''cpu'', PInt 2)])\<rparr>"

text \<open>
  A world in which the docker package is not installed, and with it nothing of
  \<^verbatim>\<open>dockerspawner\<close> can be imported.
\<close>

definition no_docker_world :: world where
  "no_docker_world = \<lparr>docker = None, importable = [], sidecar = URLError\<rparr>"

text \<open>
  A world in which the sidecar accepts the request and closes the connection without an
  answer.
\<close>

definition dropped_world :: world where
  "dropped_world =
     \<lparr>docker = Some [[''lab/jupyterhub'']], importable = dockerspawner_imports, sidecar = Dropped\<rparr>"

text \<open>
  An object whose one configured profile names its class by the class object: the local
  process spawner, with its options at address 0. And an object with no configured profile.
\<close>

definition local_only_spawner :: spawner where
  "local_only_spawner =
     default_spawner
       \<lparr>default_profiles :=
          [(''Local Notebook Server'', ''local'',
            PyClass ''jupyterhub.spawner.LocalProcessSpawner'', 0)],
        store := (\<lambda>r. [])(0 := [(''start_timeout'', PInt 15), (''http_timeout'', PInt 10)])\<rparr>"

definition empty_registry_spawner :: spawner where
  "empty_registry_spawner = default_spawner\<lparr>default_profiles := []\<rparr>"

text \<open>
  A world in which the docker client reports one image that the pattern keeps, and the sidecar
  answers with the JSON document \<^verbatim>\<open>{}\<close>.
\<close>

definition empty_answer_world :: world where
  "empty_answer_world =
     \<lparr>docker = Some [[''lab/jupyterhub'']], importable = dockerspawner_imports,
      sidecar = Body (PDict [])\<rparr>"

text \<open>An object whose \<^verbatim>\<open>docker_spawner_args\<close> hand a device to every container.\<close>

definition gpu_configured_spawner :: spawner where
  "gpu_configured_spawner =
     default_spawner
       \<lparr>docker_spawner_args :=
          [(''extra_host_config'', PDict [(''devices'', PList [PStr ''/dev/nvidia0''])])]\<rparr>"

text \<open>The keys \<^verbatim>\<open>_nvidia_args\<close> contributes, and \<^verbatim>\<open>k in d\<close>.\<close>

definition gpu_keys :: "string list" where
  "gpu_keys = [''read_only_volumes'', ''extra_create_kwargs'', ''extra_host_config'']"

definition has_key :: "('k \<times> 'v) list \<Rightarrow> 'k \<Rightarrow> bool" where
  "has_key d k = (map_of d k \<noteq> None)"

text \<open>The default object for a user in both configured groups, and for one in an unknown group.\<close>

definition two_groups_spawner :: spawner where
  "two_groups_spawner = default_spawner\<lparr>groups := [''group_a'', ''group_b'']\<rparr>"

definition visitor_spawner :: spawner where
  "visitor_spawner = default_spawner\<lparr>groups := [''visitors'']\<rparr>"

text \<open>What the form shows of a profile: \<^verbatim>\<open>p[0]\<close> and \<^verbatim>\<open>p[1]\<close>.\<close>

definition display_key :: "profile \<Rightarrow> string \<times> string" where
  "display_key p = (p_display p, p_key p)"

section \<open>Dictionaries\<close>

lemma map_of_dict_set: "map_of (dict_set k v d) = (map_of d)(k \<mapsto> v)"
  by (induction d) auto

lemma map_of_dict_update_None:
  "map_of (dict_update d e) k = None \<longleftrightarrow> map_of d k = None \<and> map_of e k = None"
  by (induction d e rule: dict_update.induct) (auto simp: map_of_dict_set)

section \<open>What selection changes and what it leaves alone\<close>

lemma install_fields:
  "child_profile (install p img s) = child_profile s"
  "profile_image (install p img s) = profile_image s"
  "child_class (install p img s) = p_type p"
  by (auto simp: install_def child_config_setitem_def split: dictref.splits)

lemma install_deref:
  "deref (install p img s) (child_config (install p img s)) =
     dict_set ''image'' (PStr img) (deref s (p_options p))"
  by (cases "p_options p") (auto simp: install_def child_config_setitem_def)

lemma select_loop_fields:
  "child_profile (select_loop ps prof img s) = child_profile s"
  "profile_image (select_loop ps prof img s) = profile_image s"
  by (induction ps) (auto simp: install_fields)

lemma select_loop_no_match: "prof \<notin> p_key ` set ps \<Longrightarrow> select_loop ps prof img s = s"
  by (induction ps) auto

lemma select_loop_first_match:
  "first_match ps prof = Some p \<Longrightarrow> select_loop ps prof img s = install p img s"
  by (induction ps) (auto split: if_splits)

lemma first_match_append:
  "prof \<notin> p_key ` set ps1 \<Longrightarrow> p_key p = prof \<Longrightarrow> first_match (ps1 @ p # ps2) prof = Some p"
  by (induction ps1) auto

lemma select_profile_fields:
  "child_profile (snd (select_profile w prof img s)) = child_profile s"
  "profile_image (snd (select_profile w prof img s)) = profile_image s"
  by (auto simp: select_profile_def select_loop_fields split: sum.splits)

text \<open>The registry depends on three fields of the object only.\<close>

lemma docker_profiles_of_cong:
  "user_name s' = user_name s \<Longrightarrow> docker_spawner_args s' = docker_spawner_args s \<Longrightarrow>
   docker_profiles_of w s' tags = docker_profiles_of w s tags"
  by (induction tags) (auto simp: docker_profile_def split: sum.splits)

lemma profiles_cong:
  "user_name s' = user_name s \<Longrightarrow> docker_spawner_args s' = docker_spawner_args s \<Longrightarrow>
   default_profiles s' = default_profiles s \<Longrightarrow> profiles w s' = profiles w s"
  by (simp add: profiles_def docker_profiles_def docker_profiles_of_cong [of s' s] split: sum.splits)

text \<open>The registry of the default object in the example world.\<close>

lemma example_registry:
  "profiles example_world default_spawner =
     Inr [(''Run Docker Image'', ''singleuser'',
             PyClass ''dockerspawner.systemuserspawner.SystemUserSpawner'', Shared 0),
          (''Docker: (no GPU): lab/jupyterhub'', ''docker-lab/jupyterhub'',
             ImportName ''dockerspawner.SystemUserSpawner'',
             Own [(''container_image'', PStr ''lab/jupyterhub''),
                  (''network_name'', PStr ''alice'')])]"
  by (simp add: profiles_def docker_profiles_def jupyterhub_docker_tags_def example_world_def
      dockerspawner_imports_def include_jh_tags_def ends_with_def nvidia_args_def
      docker_profile_def default_spawner_def static_entry_def p_display_def p_key_def
      p_type_def p_options_def)

section \<open>Persist and restore\<close>

text \<open>
  C4. Whatever pair of strings the fields \<^verbatim>\<open>child_profile\<close> and \<^verbatim>\<open>profile_image\<close> of an object
  \<open>s\<close> hold, the state that \<^verbatim>\<open>get_state\<close> builds from it (on top of any state \<open>base\<close> of the
  parent class) restores exactly that pair: after \<^verbatim>\<open>load_child_class\<close> on any object \<open>t\<close>, in
  any world, the two fields of \<open>t\<close> are those of \<open>s\<close>. This holds also when the final
  \<^verbatim>\<open>select_profile\<close> of the restore raises, since both fields are assigned before it.
\<close>

theorem persist_restore_round_trip:
  "child_profile (snd (load_child_class w (get_state base s) t)) = child_profile s \<and>
   profile_image (snd (load_child_class w (get_state base s) t)) = profile_image s"
  by (simp add: load_child_class_def load_fields_def get_state_def map_of_dict_set
      select_profile_fields)

section \<open>Resolving a submitted key\<close>

text \<open>
  C3. For every registry \<open>ps\<close> the object reads, and every submitted key that no entry of
  \<open>ps\<close> carries, \<^verbatim>\<open>select_profile\<close> returns without an error and leaves the whole object as
  it was, so the child class, the child configuration and the store behind it are unchanged;
  a second call does the same again.
\<close>

theorem resolve_no_match_is_noop:
  assumes "profiles w s = Inr ps" and "prof \<notin> p_key ` set ps"
  shows "select_profile w prof img s = (Inr (), s) \<and>
         select_profile w prof img (snd (select_profile w prof img s)) = (Inr (), s)"
  using assms by (simp add: select_profile_def select_loop_no_match)

theorem resolve_no_match_is_noop_witness:
  "select_profile example_world ''gpu'' ''img1'' default_spawner = (Inr (), default_spawner) \<and>
   select_profile example_world ''gpu'' ''img1''
     (snd (select_profile example_world ''gpu'' ''img1'' default_spawner)) =
     (Inr (), default_spawner)"
  by (rule resolve_no_match_is_noop [OF example_registry]) (simp add: p_key_def)

lemma first_match_exists: "prof \<in> p_key ` set ps \<Longrightarrow> \<exists>p. first_match ps prof = Some p"
  by (induction ps) auto

lemma first_match_key: "first_match ps prof = Some p \<Longrightarrow> p_key p = prof \<and> p \<in> set ps"
  by (induction ps) (auto split: if_splits)

lemma install_options:
  "(case p_options p of
      Shared r \<Rightarrow>
        child_config (install p img s) = Shared r \<and>
        store (install p img s) = (store s)(r := dict_set ''image'' (PStr img) (store s r))
    | Own d \<Rightarrow>
        child_config (install p img s) = Own (dict_set ''image'' (PStr img) d) \<and>
        store (install p img s) = store s)"
  by (cases "p_options p") (auto simp: install_def child_config_setitem_def)

lemma spec_example_registry:
  "profiles no_images_world spec_example_spawner =
     Inr [(''Local'', ''local'', PyClass ''LocalBackend'', Shared 0),
          (''GPU box'', ''docker-img1'', PyClass ''ContainerBackend'', Shared 1)]"
  by (simp add: profiles_def docker_profiles_def jupyterhub_docker_tags_def no_images_world_def
      spec_example_spawner_def default_spawner_def
      static_entry_def p_display_def p_key_def p_type_def p_options_def)

lemma duplicate_key_registry:
  "profiles no_images_world duplicate_key_spawner =
     Inr ([(''Small'', ''local'', PyClass ''LocalBackend'', Shared 0)] @
          (''First'', ''twice'', PyClass ''FirstBackend'', Shared 1) #
          [(''Second'', ''twice'', PyClass ''SecondBackend'', Shared 2)])"
  by (simp add: profiles_def docker_profiles_def jupyterhub_docker_tags_def no_images_world_def
      duplicate_key_spawner_def default_spawner_def
      static_entry_def p_display_def p_key_def p_type_def p_options_def)

text \<open>
  C9. When the registry holds several entries with the submitted key, \<^verbatim>\<open>select_profile\<close> takes
  the earliest: if no entry of \<open>ps1\<close> has the key and \<open>p\<close> has it, the call returns with the
  class of \<open>p\<close> as child class and the options of \<open>p\<close>, with the image stored under
  \<^verbatim>\<open>"image"\<close>, as child configuration. What follows \<open>p\<close> in the registry is never looked at:
  the loop gives the same object for every list \<open>ps2'\<close> in place of \<open>ps2\<close>.
\<close>

theorem resolve_first_match_wins:
  assumes "profiles w s = Inr (ps1 @ p # ps2)" and "prof \<notin> p_key ` set ps1" and "p_key p = prof"
  shows "select_profile w prof img s = (Inr (), install p img s) \<and>
         child_class (install p img s) = p_type p \<and>
         deref (install p img s) (child_config (install p img s)) =
           dict_set ''image'' (PStr img) (deref s (p_options p)) \<and>
         select_loop (ps1 @ p # ps2') prof img s = install p img s"
  using assms
  by (simp add: select_profile_def select_loop_first_match first_match_append
      install_fields install_deref)

theorem resolve_first_match_wins_witness:
  "select_profile no_images_world ''twice'' ''img1'' duplicate_key_spawner =
     (Inr (), install (''First'', ''twice'', PyClass ''FirstBackend'', Shared 1) ''img1''
                duplicate_key_spawner) \<and>
   child_class (snd (select_profile no_images_world ''twice'' ''img1'' duplicate_key_spawner)) =
     PyClass ''FirstBackend'' \<and>
   deref (snd (select_profile no_images_world ''twice'' ''img1'' duplicate_key_spawner))
     (child_config (snd (select_profile no_images_world ''twice'' ''img1'' duplicate_key_spawner))) =
     [(''cpu'', PInt 1), (''image'', PStr ''img1'')]"
  using resolve_first_match_wins [OF duplicate_key_registry, of "''twice''" "''img1''" "[]"]
  by (simp add: p_key_def p_type_def p_options_def duplicate_key_spawner_def)

text \<open>
  C2 says that the child configuration is a copy and that the option mapping of the registry
  entry stays as it was. In the registry of the specification's example, the mapping of the
  entry \<open>''docker-img1''\<close> is \<^verbatim>\<open>{"container_image": "img1"}\<close> before the call and
  \<^verbatim>\<open>{"container_image": "img1", "image": "img1"}\<close> after it: the assignment
  \<^verbatim>\<open>self.child_config = p[3]\<close> stores a reference, and the write goes through it.
\<close>

theorem resolve_copy_counterexample:
  "profiles no_images_world spec_example_spawner =
     Inr [(''Local'', ''local'', PyClass ''LocalBackend'', Shared 0),
          (''GPU box'', ''docker-img1'', PyClass ''ContainerBackend'', Shared 1)] \<and>
   deref spec_example_spawner (Shared 1) = [(''container_image'', PStr ''img1'')] \<and>
   deref (snd (select_profile no_images_world ''docker-img1'' ''img1'' spec_example_spawner))
     (Shared 1) = [(''container_image'', PStr ''img1''), (''image'', PStr ''img1'')] \<and>
   deref (snd (select_profile no_images_world ''docker-img1'' ''img1'' spec_example_spawner))
     (Shared 1) \<noteq> deref spec_example_spawner (Shared 1)"
  by (simp add: spec_example_registry select_profile_def install_def child_config_setitem_def
      p_key_def p_type_def p_options_def)
     (simp add: spec_example_spawner_def)

text \<open>
  C2, amended. For every registry \<open>ps\<close> the object reads and every submitted key that an entry
  carries, with \<open>p\<close> the earliest such entry, \<^verbatim>\<open>select_profile\<close> returns without an error, the
  child class is the class of \<open>p\<close>, and the child configuration reads as the options of \<open>p\<close>
  with the image stored under \<^verbatim>\<open>"image"\<close>. No copy is made: for a configured profile the child
  configuration is the very dictionary of the registry entry, which now holds the image too;
  for a discovered profile it is the dictionary built for this read of the registry, and the
  store is untouched.
\<close>

theorem resolve_installs_entry:
  assumes "profiles w s = Inr ps" and "first_match ps prof = Some p"
  shows "fst (select_profile w prof img s) = Inr () \<and>
         child_class (snd (select_profile w prof img s)) = p_type p \<and>
         deref (snd (select_profile w prof img s))
           (child_config (snd (select_profile w prof img s))) =
           dict_set ''image'' (PStr img) (deref s (p_options p)) \<and>
         (case p_options p of
            Shared r \<Rightarrow>
              child_config (snd (select_profile w prof img s)) = Shared r \<and>
              store (snd (select_profile w prof img s)) =
                (store s)(r := dict_set ''image'' (PStr img) (store s r))
          | Own d \<Rightarrow>
              child_config (snd (select_profile w prof img s)) =
                Own (dict_set ''image'' (PStr img) d) \<and>
              store (snd (select_profile w prof img s)) = store s)"
proof -
  have eq: "select_profile w prof img s = (Inr (), install p img s)"
    using assms by (simp add: select_profile_def select_loop_first_match)
  show ?thesis
    unfolding eq fst_conv snd_conv
    using install_options [of p img s] by (simp add: install_fields install_deref)
qed

theorem resolve_installs_entry_witness:
  "fst (select_profile no_images_world ''docker-img1'' ''img1'' spec_example_spawner) = Inr () \<and>
   child_class (snd (select_profile no_images_world ''docker-img1'' ''img1'' spec_example_spawner)) =
     PyClass ''ContainerBackend'' \<and>
   deref (snd (select_profile no_images_world ''docker-img1'' ''img1'' spec_example_spawner))
     (child_config (snd (select_profile no_images_world ''docker-img1'' ''img1'' spec_example_spawner))) =
     [(''container_image'', PStr ''img1''), (''image'', PStr ''img1'')] \<and>
   child_config (snd (select_profile no_images_world ''docker-img1'' ''img1'' spec_example_spawner)) =
     Shared 1"
  using resolve_installs_entry [OF spec_example_registry,
      of "''docker-img1''" "(''GPU box'', ''docker-img1'', PyClass ''ContainerBackend'', Shared 1)" "''img1''"]
  by (simp add: p_key_def p_type_def p_options_def spec_example_spawner_def)

section \<open>Discovery and the GPU probe\<close>

lemma has_key_dict_update: "has_key (dict_update d e) k = (has_key d k \<or> has_key e k)"
  by (simp add: has_key_def map_of_dict_update_None)

lemma docker_profiles_of_URLError:
  "sidecar w = URLError \<Longrightarrow> docker_profiles_of w s tags = Inr (map (docker_profile s []) tags)"
  by (induction tags) (simp_all add: nvidia_args_def)

lemma docker_profiles_of_Inr:
  "nvidia_args w = Inr a \<Longrightarrow> docker_profiles_of w s tags = Inr (map (docker_profile s a) tags)"
  by (induction tags) simp_all

lemma volumes_dict_not_docker: "volumes_dict vs acc \<noteq> Inl DockerNotInstalled"
proof (induction vs arbitrary: acc)
  case Nil
  show ?case by simp
next
  case (Cons v vs)
  have item: "split_item v i \<noteq> Inl DockerNotInstalled" for i
    by (cases v) (simp_all add: Let_def)
  show ?case
    using Cons.IH item [of 0] item [of 1] by (auto split: sum.splits)
qed

lemma py_getitem_not_docker: "py_getitem v k \<noteq> Inl DockerNotInstalled"
  by (cases v) (simp_all split: option.splits)

lemma py_iter_not_docker: "py_iter v \<noteq> Inl DockerNotInstalled"
  by (cases v) simp_all

lemma nvidia_args_not_docker: "nvidia_args w \<noteq> Inl DockerNotInstalled"
  using volumes_dict_not_docker py_getitem_not_docker py_iter_not_docker
  by (auto simp: nvidia_args_def split: probe.splits sum.splits)

text \<open>Validation changes the class slot only, and only an import string in it.\<close>

lemma validate_profiles_fields:
  "validate_profiles w ps = Inr qs \<Longrightarrow>
     map p_display qs = map p_display ps \<and> map p_key qs = map p_key ps \<and>
     map p_options qs = map p_options ps"
proof (induction ps arbitrary: qs)
  case Nil
  then show ?case by simp
next
  case (Cons p ps)
  then show ?case
    by (auto simp: p_display_def p_key_def p_options_def split: sum.splits)
qed

text \<open>Two registries where the docker package is not installed.\<close>

lemma local_only_registry_no_docker:
  "profiles no_docker_world local_only_spawner = Inl DockerNotInstalled"
  by (simp add: profiles_def docker_profiles_def jupyterhub_docker_tags_def no_docker_world_def
      local_only_spawner_def default_spawner_def p_type_def)

lemma default_registry_no_docker:
  "profiles no_docker_world default_spawner = Inl TraitError"
  by (simp add: profiles_def no_docker_world_def default_spawner_def p_type_def)

text \<open>
  C5 says that a restore from a state without the keys raises no error. The empty state has
  neither key, and \<^verbatim>\<open>load_child_class\<close> resets the two fields and then calls
  \<^verbatim>\<open>select_profile\<close>, which reads the registry. Where the docker package is not installed,
  an object whose configured profile names the local process spawner by its class raises the
  error of \<^verbatim>\<open>_jupyterhub_docker_tags\<close> out of \<^verbatim>\<open>load_child_class\<close>, and the object with the
  default configuration raises the TraitError of its import string
  \<^verbatim>\<open>"dockerspawner.SystemUserSpawner"\<close>.
\<close>

theorem restore_missing_keys_counterexample:
  "map_of ([] :: pydict) ''profile'' = None \<and>
   fst (load_child_class no_docker_world [] local_only_spawner) = Inl DockerNotInstalled \<and>
   fst (load_child_class no_docker_world [] default_spawner) = Inl TraitError"
proof -
  have reg: "profiles no_docker_world (t\<lparr>child_profile := [], profile_image := []\<rparr>) =
      profiles no_docker_world t" for t
    by (rule profiles_cong) simp_all
  show ?thesis
    by (simp add: load_child_class_def load_fields_def select_profile_def reg
        local_only_registry_no_docker default_registry_no_docker)
qed

text \<open>
  C5, amended. For every persisted state in which \<^verbatim>\<open>"profile"\<close> is missing, or in which
  \<^verbatim>\<open>"profile"\<close> holds a string (as \<^verbatim>\<open>get_state\<close> writes it) and \<^verbatim>\<open>"dockerImage"\<close> is missing,
  \<^verbatim>\<open>load_child_class\<close> resets both fields to the empty string, in every world. Its outcome is
  that of reading the registry: no error when the registry can be read, and otherwise the
  error of that read.
\<close>

theorem restore_missing_keys_resets:
  assumes "map_of state ''profile'' = None \<or>
           (map_of state ''profile'' = Some (PStr prof) \<and> map_of state ''dockerImage'' = None)"
  shows "child_profile (snd (load_child_class w state s)) = [] \<and>
         profile_image (snd (load_child_class w state s)) = [] \<and>
         fst (load_child_class w state s) =
           (case profiles w s of Inl e \<Rightarrow> Inl e | Inr ps \<Rightarrow> Inr ())"
proof -
  have reg: "profiles w (t\<lparr>child_profile := [], profile_image := []\<rparr>) = profiles w t" for t
    by (rule profiles_cong) simp_all
  have reg1: "profiles w (s\<lparr>child_profile := prof\<rparr>) = profiles w s"
    by (rule profiles_cong) simp_all
  have out: "fst (select_profile w [] [] (t\<lparr>child_profile := [], profile_image := []\<rparr>)) =
      (case profiles w t of Inl e \<Rightarrow> Inl e | Inr ps \<Rightarrow> Inr ())" for t
    by (simp add: select_profile_def reg split: sum.splits)
  from assms show ?thesis
  proof
    assume "map_of state ''profile'' = None"
    then show ?thesis
      by (simp add: load_child_class_def load_fields_def select_profile_fields out)
  next
    assume "map_of state ''profile'' = Some (PStr prof) \<and> map_of state ''dockerImage'' = None"
    then show ?thesis
      by (simp add: load_child_class_def load_fields_def select_profile_fields out reg1)
  qed
qed

theorem restore_missing_keys_resets_witness:
  "child_profile (snd (load_child_class example_world [(''profile'', PStr ''singleuser'')]
      (default_spawner\<lparr>child_profile := ''old'', profile_image := ''older''\<rparr>))) = [] \<and>
   profile_image (snd (load_child_class example_world [(''profile'', PStr ''singleuser'')]
      (default_spawner\<lparr>child_profile := ''old'', profile_image := ''older''\<rparr>))) = [] \<and>
   fst (load_child_class example_world [(''profile'', PStr ''singleuser'')]
      (default_spawner\<lparr>child_profile := ''old'', profile_image := ''older''\<rparr>)) = Inr ()"
proof -
  have reg: "profiles example_world (default_spawner\<lparr>child_profile := ''old'', profile_image := ''older''\<rparr>)
      = profiles example_world default_spawner"
    by (rule profiles_cong) simp_all
  show ?thesis
    using restore_missing_keys_resets [of "[(''profile'', PStr ''singleuser'')]" "''singleuser''"
        example_world "default_spawner\<lparr>child_profile := ''old'', profile_image := ''older''\<rparr>"]
    by (simp add: reg example_registry)
qed

text \<open>
  C6 says that a probe that fails at the network level returns the empty mapping without
  raising, and that the discovered profile then holds none of the keys
  \<^verbatim>\<open>read_only_volumes\<close>, \<^verbatim>\<open>extra_create_kwargs\<close>, \<^verbatim>\<open>extra_host_config\<close>. Both parts fail.
  A connection that is closed after the request was sent raises an error that is not a
  URLError, the only error \<^verbatim>\<open>_nvidia_args\<close> catches: the probe raises, and so does the read
  of the registry. And when the probe does return the empty mapping and the profile is
  labelled \<^verbatim>\<open>no GPU\<close>, \<^verbatim>\<open>_docker_profile\<close> still merges the configured
  \<^verbatim>\<open>docker_spawner_args\<close>, and a key it holds is in the profile.
\<close>

theorem probe_failure_counterexample:
  "sidecar dropped_world = Dropped \<and>
   nvidia_args dropped_world = Inl OSError \<and>
   profiles dropped_world default_spawner = Inl OSError \<and>
   sidecar example_world = URLError \<and>
   nvidia_args example_world = Inr [] \<and>
   p_display (docker_profile gpu_configured_spawner [] ''lab/jupyterhub'') =
     ''Docker: (no GPU): lab/jupyterhub'' \<and>
   p_options (docker_profile gpu_configured_spawner [] ''lab/jupyterhub'') =
     Own [(''container_image'', PStr ''lab/jupyterhub''), (''network_name'', PStr ''alice''),
          (''extra_host_config'', PDict [(''devices'', PList [PStr ''/dev/nvidia0''])])]"
  by (simp add: example_world_def dropped_world_def nvidia_args_def docker_profile_def
      gpu_configured_spawner_def default_spawner_def p_display_def p_options_def p_type_def
      profiles_def docker_profiles_def jupyterhub_docker_tags_def include_jh_tags_def
      ends_with_def dockerspawner_imports_def)

text \<open>
  C6, amended. When the probe fails with a URLError (the one failure \<^verbatim>\<open>_nvidia_args\<close>
  catches), it returns the empty mapping without raising, for every list of tags the
  discovered profiles are built without an error, and the profile of a tag is labelled
  \<^verbatim>\<open>no GPU\<close> and has as options \<^verbatim>\<open>container_image\<close> and \<^verbatim>\<open>network_name\<close> overlaid with the
  configured \<^verbatim>\<open>docker_spawner_args\<close>: it holds a GPU-related key exactly when
  \<^verbatim>\<open>docker_spawner_args\<close> holds it (by default, none).
\<close>

theorem probe_failure_plain_profile:
  assumes "sidecar w = URLError"
  shows "nvidia_args w = Inr [] \<and>
         docker_profiles_of w s tags = Inr (map (docker_profile s []) tags) \<and>
         p_display (docker_profile s [] tag) = ''Docker: (no GPU): '' @ tag \<and>
         p_options (docker_profile s [] tag) =
           Own (dict_update
                  [(''container_image'', PStr tag), (''network_name'', PStr (user_name s))]
                  (docker_spawner_args s)) \<and>
         filter (has_key (deref s (p_options (docker_profile s [] tag)))) gpu_keys =
           filter (has_key (docker_spawner_args s)) gpu_keys"
  using assms
  by (simp add: docker_profiles_of_URLError nvidia_args_def docker_profile_def p_display_def
      p_options_def gpu_keys_def has_key_dict_update) (simp add: has_key_def)

theorem probe_failure_plain_profile_witness:
  "nvidia_args example_world = Inr [] \<and>
   p_display (docker_profile default_spawner [] ''lab/jupyterhub'') =
     ''Docker: (no GPU): lab/jupyterhub'' \<and>
   filter (has_key (deref default_spawner
      (p_options (docker_profile default_spawner [] ''lab/jupyterhub'')))) gpu_keys = []"
  using probe_failure_plain_profile [of example_world default_spawner "[]" "''lab/jupyterhub''"]
  by (simp add: example_world_def) (simp add: default_spawner_def gpu_keys_def has_key_def)

text \<open>
  C8 says that the configuration error is signalled when discovery is invoked by a read of
  the registry, and that with the client available the registry is the static list followed
  by the discovered profiles. With the client available and a tag retained, a sidecar that
  answers \<^verbatim>\<open>{}\<close> makes \<^verbatim>\<open>args["Volumes"]\<close> raise a KeyError, which only a URLError handler
  guards, and the read of the registry raises it. And where the docker package is not
  installed, the read of the registry of the default configuration does not reach discovery:
  \<^verbatim>\<open>self.default_profiles\<close> is evaluated first and raises the TraitError of its import
  string, while \<^verbatim>\<open>_jupyterhub_docker_tags\<close> itself raises the configuration error.
\<close>

theorem registry_order_counterexample:
  "docker empty_answer_world = Some [[''lab/jupyterhub'']] \<and>
   profiles empty_answer_world default_spawner = Inl KeyError \<and>
   docker no_docker_world = None \<and>
   jupyterhub_docker_tags no_docker_world = Inl DockerNotInstalled \<and>
   profiles no_docker_world default_spawner = Inl TraitError"
  by (simp add: default_registry_no_docker)
     (simp add: profiles_def docker_profiles_def jupyterhub_docker_tags_def
      empty_answer_world_def no_docker_world_def include_jh_tags_def ends_with_def
      nvidia_args_def default_spawner_def dockerspawner_imports_def p_type_def)

text \<open>
  C8, amended. \<^verbatim>\<open>_jupyterhub_docker_tags\<close> raises the configuration error exactly when the docker
  package is not installed; the probe, which does not read the registry, never raises it
  (\<^verbatim>\<open>images\<close>, \<^verbatim>\<open>get_state\<close> and \<^verbatim>\<open>_docker_profile\<close> do not look at the world at all). A
  read of the registry first validates the configured list: when that raises, the read raises
  the same error and discovery is not invoked; when it gives the list \<open>sps\<close> (the configured
  entries, each import string replaced by its class), the read invokes discovery and raises
  the configuration error if the docker package is not installed. When the client is
  available, the configured list validates, and either no tag is retained or the probe
  returns a mapping \<open>a\<close>, the registry is the validated static list followed by one discovered
  profile for each retained tag, in the order of the tags.
\<close>

theorem discovery_error_and_order:
  "(docker w = None \<longrightarrow> jupyterhub_docker_tags w = Inl DockerNotInstalled) \<and>
   (jupyterhub_docker_tags w = Inl DockerNotInstalled \<longrightarrow> docker w = None) \<and>
   nvidia_args w \<noteq> Inl DockerNotInstalled \<and>
   (validate_profiles w (default_profiles s) = Inl e \<longrightarrow> profiles w s = Inl e) \<and>
   (validate_profiles w (default_profiles s) = Inr sps \<longrightarrow>
      map p_display sps = map p_display (default_profiles s) \<and>
      map p_key sps = map p_key (default_profiles s) \<and>
      map p_options sps = map p_options (default_profiles s) \<and>
      (docker w = None \<longrightarrow> profiles w s = Inl DockerNotInstalled) \<and>
      (docker w = Some imgs \<and>
       (filter include_jh_tags (concat imgs) = [] \<or> nvidia_args w = Inr a) \<longrightarrow>
         profiles w s =
           Inr (map static_entry sps @
                map (docker_profile s a) (filter include_jh_tags (concat imgs)))))"
proof -
  have order: "profiles w s =
        Inr (map static_entry sps @
             map (docker_profile s a) (filter include_jh_tags (concat imgs)))"
    if v: "validate_profiles w (default_profiles s) = Inr sps"
      and d: "docker w = Some imgs"
      and p: "filter include_jh_tags (concat imgs) = [] \<or> nvidia_args w = Inr a"
  proof -
    from p have "docker_profiles_of w s (filter include_jh_tags (concat imgs)) =
        Inr (map (docker_profile s a) (filter include_jh_tags (concat imgs)))"
      by (auto simp: docker_profiles_of_Inr)
    then show ?thesis
      by (simp add: profiles_def docker_profiles_def jupyterhub_docker_tags_def d v)
  qed
  have tags: "docker w = None \<longrightarrow> jupyterhub_docker_tags w = Inl DockerNotInstalled"
    by (simp add: jupyterhub_docker_tags_def)
  have only: "jupyterhub_docker_tags w = Inl DockerNotInstalled \<longrightarrow> docker w = None"
    by (simp add: jupyterhub_docker_tags_def split: option.splits)
  have invalid: "validate_profiles w (default_profiles s) = Inl e \<longrightarrow> profiles w s = Inl e"
    by (simp add: profiles_def)
  have missing: "profiles w s = Inl DockerNotInstalled"
    if "validate_profiles w (default_profiles s) = Inr sps" and "docker w = None"
    using that by (simp add: profiles_def docker_profiles_def jupyterhub_docker_tags_def)
  show ?thesis
    using tags only invalid missing order validate_profiles_fields [of w "default_profiles s" sps]
      nvidia_args_not_docker [of w]
    by blast
qed

theorem discovery_error_and_order_witness:
  "jupyterhub_docker_tags no_docker_world = Inl DockerNotInstalled \<and>
   profiles no_docker_world default_spawner = Inl TraitError \<and>
   profiles no_docker_world local_only_spawner = Inl DockerNotInstalled \<and>
   profiles example_world default_spawner =
     Inr (map static_entry
            [(''Run Docker Image'', ''singleuser'',
              PyClass ''dockerspawner.systemuserspawner.SystemUserSpawner'', 0)] @
          map (docker_profile default_spawner []) [''lab/jupyterhub''])"
proof -
  have v0: "validate_profiles no_docker_world (default_profiles default_spawner) = Inl TraitError"
    by (simp add: no_docker_world_def default_spawner_def p_type_def)
  have v1: "validate_profiles no_docker_world (default_profiles local_only_spawner) =
      Inr [(''Local Notebook Server'', ''local'',
            PyClass ''jupyterhub.spawner.LocalProcessSpawner'', 0)]"
    by (simp add: local_only_spawner_def default_spawner_def p_display_def p_key_def p_type_def
        p_options_def)
  have v2: "validate_profiles example_world (default_profiles default_spawner) =
      Inr [(''Run Docker Image'', ''singleuser'',
            PyClass ''dockerspawner.systemuserspawner.SystemUserSpawner'', 0)]"
    by (simp add: example_world_def dockerspawner_imports_def default_spawner_def p_display_def
        p_key_def p_type_def p_options_def)
  have d0: "docker no_docker_world = None"
    by (simp add: no_docker_world_def)
  have d2: "docker example_world = Some [[''lab/jupyterhub'', ''lab:latest'']]"
    by (simp add: example_world_def)
  have kept: "include_jh_tags ''lab/jupyterhub''" "\<not> include_jh_tags ''lab:latest''"
    by (simp_all add: include_jh_tags_def ends_with_def)
  have probe: "nvidia_args example_world = Inr []"
    by (simp add: nvidia_args_def example_world_def)
  show ?thesis
    using discovery_error_and_order [of no_docker_world default_spawner TraitError]
      discovery_error_and_order [of no_docker_world local_only_spawner _
        "[(''Local Notebook Server'', ''local'',
           PyClass ''jupyterhub.spawner.LocalProcessSpawner'', 0)]"]
      discovery_error_and_order [of example_world default_spawner _
        "[(''Run Docker Image'', ''singleuser'',
           PyClass ''dockerspawner.systemuserspawner.SystemUserSpawner'', 0)]"
        "[[''lab/jupyterhub'', ''lab:latest'']]" "[]"]
    by (simp add: v0 v1 v2 d0 d2 kept probe)
qed

section \<open>Submitting the form\<close>

text \<open>Whatever the world, the object and the form data: \<^verbatim>\<open>options_from_form\<close> raises.\<close>

lemma options_from_form_never_returns: "options_from_form w s formdata \<noteq> Inr r"
  by (simp add: options_from_form_def images_attr_def split: sum.splits list.splits)

text \<open>
  C1 asks \<^verbatim>\<open>options_from_form\<close> for defaults when a field is absent. With the default
  configuration and the registry readable, the call raises a TypeError for the empty form,
  and also for a form that carries both fields: the default for \<^verbatim>\<open>dockerImage\<close> is computed
  first, as \<^verbatim>\<open>self.images[0][1]\<close>, and \<^verbatim>\<open>self.images\<close> is a method.
\<close>

theorem submit_defaults_raise:
  "options_from_form example_world default_spawner Map.empty = Inl TypeError \<and>
   options_from_form example_world default_spawner
     [''profile'' \<mapsto> [''singleuser''], ''dockerImage'' \<mapsto> [''jupyterhub/singleuser'']] =
     Inl TypeError"
  by (simp add: options_from_form_def images_attr_def example_registry)

section \<open>Rendering with the default templates\<close>

lemmas format_simps =
  format_def classify_def lookup_field_def is_digit_def emit_def

lemma format_profile_record:
  "format default_input_template (dict_set ''first'' (TStr f) (profile_record p)) =
     Inr (option_html (p_key p) f (p_display p))"
  by (simp add: format_simps default_input_template_def profile_record_def option_html_def)

lemma format_image_record:
  "format default_input_template (dict_set ''first'' (TStr f) (image_record (d, k))) =
     Inr (option_html k f d)"
  by (simp add: format_simps default_input_template_def image_record_def option_html_def)

lemma dict_set_first_profile: "dict_set ''first'' (TStr []) (profile_record p) = profile_record p"
  by (simp add: profile_record_def)

lemma dict_set_first_image: "dict_set ''first'' (TStr []) (image_record p) = image_record p"
  by (simp add: image_record_def)

lemma format_all_profiles:
  "format_all default_input_template (map profile_record ps) =
     Inr (concat (map (\<lambda>(d, k). option_html k [] d) (map display_key ps)))"
proof (induction ps)
  case Nil
  show ?case by simp
next
  case (Cons p ps)
  have "format default_input_template (profile_record p) =
      Inr (option_html (p_key p) [] (p_display p))"
    using format_profile_record [of "[]" p] by (simp add: dict_set_first_profile)
  with Cons show ?case by (simp add: emit_def display_key_def)
qed

lemma format_all_images:
  "format_all default_input_template (map image_record is) =
     Inr (concat (map (\<lambda>(d, k). option_html k [] d) is))"
proof (induction "is")
  case Nil
  show ?case by simp
next
  case (Cons i "is")
  obtain d k where i: "i = (d, k)" by (cases i)
  have "format default_input_template (image_record (d, k)) = Inr (option_html k [] d)"
    using format_image_record [of "[]" d k] by (simp add: dict_set_first_image)
  with Cons i show ?case by (simp add: emit_def)
qed

lemma format_form:
  "format default_form_template
     [(''input_template'', TStr a), (''input_image_template'', TStr b)] = Inr (form_html a b)"
  by (simp add: format_simps default_form_template_def form_html_def)

lemma render_profiles:
  "format_all default_input_template
     (dict_set ''first'' (TStr m) (profile_record p) # map profile_record ps) =
   Inr (concat (option_elements m (map display_key (p # ps))))"
  by (simp add: format_profile_record format_all_profiles emit_def display_key_def)

lemma render_images:
  "format_all default_input_template
     (case map image_record is of
        [] \<Rightarrow> []
      | ti # tis \<Rightarrow> dict_set ''first'' (TStr m) ti # tis) =
   Inr (concat (option_elements m is))"
proof (cases "is")
  case Nil
  then show ?thesis by simp
next
  case (Cons i is')
  obtain d k where "i = (d, k)" by (cases i)
  with Cons show ?thesis
    by (simp add: format_image_record format_all_images emit_def)
qed

lemma length_option_elements: "length (option_elements m xs) = length xs"
  by (cases xs) auto

lemma options_form_default_templates:
  assumes "profiles w s = Inr ps" and "ps \<noteq> []"
    and "input_template s = default_input_template"
    and "input_image_template s = default_input_template"
    and "form_template s = default_form_template"
  shows "options_form w s =
     Inr (form_html (concat (option_elements (first_template s) (map display_key ps)))
            (concat (option_elements (first_template s) (group_image_list s))))"
proof -
  from assms(2) obtain p ps' where ps: "ps = p # ps'" by (cases ps) auto
  have ptext: "format_all (input_template s)
      (dict_set ''first'' (TStr (first_template s)) (profile_record p) # map profile_record ps') =
      Inr (concat (option_elements (first_template s) (map display_key (p # ps'))))"
    by (simp only: assms(3) render_profiles)
  have itext: "format_all (input_image_template s)
      (case map image_record (group_image_list s) of
         [] \<Rightarrow> []
       | ti # tis \<Rightarrow> dict_set ''first'' (TStr (first_template s)) ti # tis) =
      Inr (concat (option_elements (first_template s) (group_image_list s)))"
    by (simp only: assms(4) render_images)
  have outer: "format (form_template s)
      [(''input_template'', TStr a), (''input_image_template'', TStr b)] = Inr (form_html a b)"
    for a b
    by (simp only: assms(5) format_form)
  show ?thesis
    unfolding options_form_def assms(1) ps
    by (simp add: ptext itext outer del: format_all.simps option_elements.simps)
qed

text \<open>
  C7. For every registry \<open>ps\<close> of at least one profile that the object reads, and whatever the
  images of the user's groups are, the form rendered with the default templates is the
  default form around two runs of \<^verbatim>\<open><option>\<close> elements: one element for each profile, in
  the order of the registry, and one for each image, in the order of the groups. In each run
  the first element carries the configured marker \<^verbatim>\<open>first_template\<close> and every other element
  carries the empty string in its place (\<open>option_elements\<close>); a run over an empty list is
  empty and carries no marker.
\<close>

theorem render_option_elements:
  assumes "profiles w s = Inr ps" and "ps \<noteq> []"
    and "input_template s = default_input_template"
    and "input_image_template s = default_input_template"
    and "form_template s = default_form_template"
  shows "options_form w s =
           Inr (form_html (concat (option_elements (first_template s) (map display_key ps)))
                  (concat (option_elements (first_template s) (group_image_list s)))) \<and>
         length (option_elements (first_template s) (map display_key ps)) = length ps \<and>
         length (option_elements (first_template s) (group_image_list s)) =
           length (group_image_list s)"
  using options_form_default_templates [OF assms] by (simp add: length_option_elements)

theorem render_option_elements_witness:
  "options_form example_world two_groups_spawner =
     Inr (form_html
            (option_html ''singleuser'' ''selected'' ''Run Docker Image'' @
             option_html ''docker-lab/jupyterhub'' [] ''Docker: (no GPU): lab/jupyterhub'')
            (option_html ''jupyterhub/singleuser'' ''selected'' ''base image group_a'' @
             option_html ''jupyterhub/singleuser'' [] ''base image group_b''))"
proof -
  have reg: "profiles example_world two_groups_spawner = profiles example_world default_spawner"
    unfolding two_groups_spawner_def by (rule profiles_cong) simp_all
  have imgs: "group_image_list two_groups_spawner =
      [(''base image group_a'', ''jupyterhub/singleuser''),
       (''base image group_b'', ''jupyterhub/singleuser'')]"
    by (simp add: group_image_list_def images_of_def two_groups_spawner_def default_spawner_def)
  show ?thesis
    using render_option_elements [OF reg [unfolded example_registry]]
    by (simp add: imgs display_key_def p_display_def p_key_def)
      (simp add: two_groups_spawner_def default_spawner_def)
qed

text \<open>
  C10 says that rendering does not fail for any user whose groups give no image. Such a
  user's form still needs the registry: for an object with no configured profile, where the
  docker client reports no image, \<^verbatim>\<open>temp_keys[0]\<close> raises an IndexError; and where the docker
  package is not installed, the read of the registry raises.
\<close>

theorem render_without_images_counterexample:
  "group_image_list empty_registry_spawner = [] \<and>
   profiles no_images_world empty_registry_spawner = Inr [] \<and>
   options_form no_images_world empty_registry_spawner = Inl IndexError \<and>
   group_image_list local_only_spawner = [] \<and>
   options_form no_docker_world local_only_spawner = Inl DockerNotInstalled"
proof -
  have reg: "profiles no_images_world empty_registry_spawner = Inr []"
    by (simp add: profiles_def docker_profiles_def jupyterhub_docker_tags_def no_images_world_def
        empty_registry_spawner_def)
  show ?thesis
    by (simp add: reg options_form_def local_only_registry_no_docker)
      (simp add: group_image_list_def empty_registry_spawner_def local_only_spawner_def
        default_spawner_def)
qed

text \<open>
  C10, amended. For every user whose groups give no image at all, and every registry of at
  least one profile that the object reads, rendering the form (with the default templates)
  returns the form without an error: the image part is the empty string, with no element
  and no marker, and the profile part is rendered as for any other user.
\<close>

theorem render_without_images:
  assumes "group_image_list s = []"
    and "profiles w s = Inr ps" and "ps \<noteq> []"
    and "input_template s = default_input_template"
    and "input_image_template s = default_input_template"
    and "form_template s = default_form_template"
  shows "options_form w s =
           Inr (form_html (concat (option_elements (first_template s) (map display_key ps))) []) \<and>
         option_elements (first_template s) (group_image_list s) = []"
  using options_form_default_templates [OF assms(2-6)] by (simp add: assms(1))

theorem render_without_images_witness:
  "group_image_list visitor_spawner = [] \<and>
   options_form example_world visitor_spawner =
     Inr (form_html
            (option_html ''singleuser'' ''selected'' ''Run Docker Image'' @
             option_html ''docker-lab/jupyterhub'' [] ''Docker: (no GPU): lab/jupyterhub'')
            [])"
proof -
  have reg: "profiles example_world visitor_spawner = profiles example_world default_spawner"
    unfolding visitor_spawner_def by (rule profiles_cong) simp_all
  have imgs: "group_image_list visitor_spawner = []"
    by (simp add: group_image_list_def images_of_def visitor_spawner_def default_spawner_def)
  show ?thesis
    using render_without_images [OF imgs reg [unfolded example_registry]]
    by (simp add: imgs display_key_def p_display_def p_key_def)
      (simp add: visitor_spawner_def default_spawner_def)
qed

end
